theory Spec2Isabelle
  imports Main "HOL-Library.Word"
begin

section \<open>Data model of main.ts\<close>

text \<open>
  The library is a set of asynchronous wrappers around the Deno runtime and three helpers of
  the Deno standard library. Strings are lists of characters, \<open>Uint8Array\<close> values are
  lists of bytes. The four input interfaces are records; \<open>ZipInput extends CopyInput\<close>
  and \<open>FileInput extends DirectoryInput\<close> are record extensions, and the optional field
  \<open>content?: string\<close> is a \<open>string option\<close> (\<open>None\<close> is \<open>undefined\<close>).
\<close>

type_synonym bytes = "8 word list"

record DirectoryInput =
  projectRoot :: string
  path :: string

record CopyInput =
  projectRoot :: string
  source :: string
  target :: string

record ZipInput = CopyInput +
  name :: string

record FileInput = DirectoryInput +
  content :: "string option"

subsection \<open>Thrown values\<close>

text \<open>
  JavaScript can throw any value. A thrown value is either an object whose prototype chain
  contains \<open>Error\<close> (with its class and its message) or something else. \<open>PlainError\<close>
  is the class of \<open>new Error(msg)\<close>; \<open>NotFound\<close> and \<open>AlreadyExists\<close> are
  \<open>Deno.errors.NotFound\<close> and \<open>Deno.errors.AlreadyExists\<close>.
\<close>

datatype error_class = PlainError | NotFound | AlreadyExists | OtherClass string

datatype thrown = ErrorObject error_class string | NonErrorValue string


fun instanceof_NotFound :: "thrown \<Rightarrow> bool" where
  "instanceof_NotFound (ErrorObject c m) = (c = NotFound)"
| "instanceof_NotFound (NonErrorValue v) = False"


subsection \<open>Asynchronous computations\<close>

text \<open>
  An awaited promise either resolves to a value or rejects with a thrown value, and it may
  change the world (the file system, the console) in both cases. A computation is therefore
  a function from the world before to the outcome and the world after.
\<close>

type_synonym ('w, 'a) io = "'w \<Rightarrow> (thrown + 'a) \<times> 'w"

definition return_io :: "'a \<Rightarrow> ('w, 'a) io" where
  "return_io x = (\<lambda>w. (Inr x, w))"

definition throw_io :: "thrown \<Rightarrow> ('w, 'a) io" where
  "throw_io e = (\<lambda>w. (Inl e, w))"

definition bind_io :: "('w, 'a) io \<Rightarrow> ('a \<Rightarrow> ('w, 'b) io) \<Rightarrow> ('w, 'b) io" where
  "bind_io m f = (\<lambda>w. case m w of
       (Inl e, w') \<Rightarrow> (Inl e, w')
     | (Inr x, w') \<Rightarrow> f x w')"

definition try_catch :: "('w, 'a) io \<Rightarrow> (thrown \<Rightarrow> ('w, 'a) io) \<Rightarrow> ('w, 'a) io" where
  "try_catch m handler = (\<lambda>w. case m w of
       (Inl e, w') \<Rightarrow> handler e w'
     | (Inr x, w') \<Rightarrow> (Inr x, w'))"

subsection \<open>The host: Deno and the standard library\<close>

text \<open>
  The runtime is not part of the repository, so every call into it is a field of a record
  that the operations take as a parameter. \<open>Deno.readDir\<close> returns an asynchronous
  stream: the entries it yields, and the value it throws at the end, if any.
  \<open>TextDecoder.decode\<close> is a pure function. The type \<open>'m\<close> is that of an imported
  module.
\<close>

record DirEntry =
  name :: string
  isFile :: bool
  isDirectory :: bool
  isSymlink :: bool

record CommandOutput =
  success :: bool
  stdout :: bytes
  stderr :: bytes

record ('w, 'm) host =
  Deno_readDir :: "string \<Rightarrow> 'w \<Rightarrow> (DirEntry list \<times> thrown option) \<times> 'w"
  std_ensureDir :: "string \<Rightarrow> ('w, unit) io"
  Deno_remove :: "string \<Rightarrow> bool \<Rightarrow> ('w, unit) io"
  std_copy :: "string \<Rightarrow> string \<Rightarrow> ('w, unit) io"
  std_resolve :: "string \<Rightarrow> string \<Rightarrow> ('w, string) io"
  Deno_Command_output :: "string \<Rightarrow> string list \<Rightarrow> string \<Rightarrow> ('w, CommandOutput) io"
  TextDecoder_decode :: "bytes \<Rightarrow> string"
  console_log :: "string \<Rightarrow> ('w, unit) io"
  Deno_readFile :: "string \<Rightarrow> ('w, bytes) io"
  dynamic_import :: "string \<Rightarrow> ('w, 'm) io"
  Deno_writeTextFile :: "string \<Rightarrow> string \<Rightarrow> ('w, unit) io"
  Deno_copyFile :: "string \<Rightarrow> string \<Rightarrow> ('w, unit) io"
  Deno_readTextFile :: "string \<Rightarrow> ('w, string) io"

section \<open>The operations of main.ts\<close>

subsection \<open>Helpers\<close>

text \<open>
  \<open>x[i]\<close> on a string is \<open>undefined\<close> outside \<open>0 .. x.length - 1\<close>, in particular
  \<open>x[-1]\<close> on the empty string.
\<close>

definition char_at :: "string \<Rightarrow> int \<Rightarrow> char option" where
  "char_at x i = (if 0 \<le> i \<and> i < int (length x) then Some (x ! nat i) else None)"

definition formatWithTrailingSlash :: "string \<Rightarrow> string" where
  "formatWithTrailingSlash x =
     x @ (if char_at x (int (length x) - 1) \<noteq> Some CHR ''/'' then ''/'' else '''')"

subsection \<open>Folders\<close>

text \<open>The body of the \<open>for await\<close> loop of \<open>getDirectories\<close>, over the entries yielded.\<close>

fun push_directories :: "DirEntry list \<Rightarrow> string list \<Rightarrow> string list" where
  "push_directories [] directories = directories"
| "push_directories (entry # rest) directories =
     push_directories rest
       (if isDirectory entry then directories @ [DirEntry.name entry] else directories)"

definition getDirectories ::
  "('w, 'm) host \<Rightarrow> 'a DirectoryInput_scheme \<Rightarrow> ('w, string list) io" where
  "getDirectories h input = (\<lambda>w.
     case Deno_readDir h (DirectoryInput.projectRoot input @ path input) w of
       ((entries, ending), w') \<Rightarrow>
         (let directories = push_directories entries []
          in case ending of
               Some e \<Rightarrow> (Inl e, w')
             | None \<Rightarrow> (Inr directories, w')))"


definition removeDir :: "('w, 'm) host \<Rightarrow> 'a DirectoryInput_scheme \<Rightarrow> ('w, unit) io" where
  "removeDir h input =
     (let thePath = DirectoryInput.projectRoot input @ path input
      in try_catch (Deno_remove h thePath True)
           (\<lambda>error. if \<not> instanceof_NotFound error then throw_io error else return_io ()))"


definition zipFolder :: "('w, 'm) host \<Rightarrow> 'a ZipInput_scheme \<Rightarrow> ('w, unit) io" where
  "zipFolder h input =
     (let source = CopyInput.projectRoot input @ source input;
          target = CopyInput.projectRoot input @ formatWithTrailingSlash (target input);
          name = ZipInput.name input
      in bind_io (std_ensureDir h target) (\<lambda>_.
         bind_io (std_resolve h target (name @ ''.zip'')) (\<lambda>zipFilePath.
         bind_io (Deno_Command_output h ''zip'' [''-r'', zipFilePath, ''.''] source) (\<lambda>out.
           if \<not> success out
           then (let errorOutput = TextDecoder_decode h (stderr out)
                 in throw_io (ErrorObject PlainError (''Failed to create zip: '' @ errorOutput)))
           else (let output = TextDecoder_decode h (stdout out)
                 in console_log h output)))))"

subsection \<open>Files\<close>



text \<open>
  \<open>!input.content\<close> holds for \<open>undefined\<close> and for the empty string; past the check
  the content is a non-empty string.
\<close>

definition writeFile :: "('w, 'm) host \<Rightarrow> 'a FileInput_scheme \<Rightarrow> ('w, unit) io" where
  "writeFile h input =
     (let filePath = DirectoryInput.projectRoot input @ path input
      in case content input of
           None \<Rightarrow> throw_io (ErrorObject PlainError ''Content is required for writing file'')
         | Some c \<Rightarrow>
             if c = [] then throw_io (ErrorObject PlainError ''Content is required for writing file'')
             else Deno_writeTextFile h filePath c)"

definition removeFile :: "('w, 'm) host \<Rightarrow> 'a DirectoryInput_scheme \<Rightarrow> ('w, unit) io" where
  "removeFile h input =
     (let filePath = DirectoryInput.projectRoot input @ path input
      in Deno_remove h filePath False)"


definition getTextContent :: "('w, 'm) host \<Rightarrow> 'a DirectoryInput_scheme \<Rightarrow> ('w, string) io" where
  "getTextContent h input =
     (let filePath = DirectoryInput.projectRoot input @ path input
      in Deno_readTextFile h filePath)"

section \<open>Specification vocabulary\<close>

subsection \<open>Observing the calls an operation makes\<close>

text \<open>
  To state which calls an operation makes, and on which paths, a host is wrapped so that
  every call is appended, with its arguments, to a log carried beside the world. The wrapped
  host answers as the given host does.
\<close>

datatype host_call =
    ReadDir string
  | EnsureDir string
  | Remove string bool
  | Copy string string
  | Resolve string string
  | RunCommand string "string list" string
  | ConsoleLog string
  | ReadFile string
  | Import string
  | WriteTextFile string string
  | CopyFile string string
  | ReadTextFile string

definition logged ::
  "host_call \<Rightarrow> ('w \<Rightarrow> 'r \<times> 'w) \<Rightarrow> 'w \<times> host_call list \<Rightarrow> 'r \<times> ('w \<times> host_call list)" where
  "logged c m = (\<lambda>(w, log). case m w of (r, w') \<Rightarrow> (r, (w', log @ [c])))"

definition recording :: "('w, 'm) host \<Rightarrow> ('w \<times> host_call list, 'm) host" where
  "recording h =
     \<lparr> Deno_readDir = (\<lambda>p. logged (ReadDir p) (Deno_readDir h p)),
       std_ensureDir = (\<lambda>p. logged (EnsureDir p) (std_ensureDir h p)),
       Deno_remove = (\<lambda>p r. logged (Remove p r) (Deno_remove h p r)),
       std_copy = (\<lambda>s t. logged (Copy s t) (std_copy h s t)),
       std_resolve = (\<lambda>d f. logged (Resolve d f) (std_resolve h d f)),
       Deno_Command_output = (\<lambda>c args cwd. logged (RunCommand c args cwd) (Deno_Command_output h c args cwd)),
       TextDecoder_decode = TextDecoder_decode h,
       console_log = (\<lambda>s. logged (ConsoleLog s) (console_log h s)),
       Deno_readFile = (\<lambda>p. logged (ReadFile p) (Deno_readFile h p)),
       dynamic_import = (\<lambda>p. logged (Import p) (dynamic_import h p)),
       Deno_writeTextFile = (\<lambda>p c. logged (WriteTextFile p c) (Deno_writeTextFile h p c)),
       Deno_copyFile = (\<lambda>s t. logged (CopyFile s t) (Deno_copyFile h s t)),
       Deno_readTextFile = (\<lambda>p. logged (ReadTextFile p) (Deno_readTextFile h p)) \<rparr>"

definition calls_of ::
  "('w \<times> host_call list \<Rightarrow> 'r \<times> ('w \<times> host_call list)) \<Rightarrow> 'w \<Rightarrow> host_call list" where
  "calls_of m w = snd (snd (m (w, [])))"

subsection \<open>Predicates of the specification\<close>

text \<open>A value of type \<open>string | undefined\<close> is truthy when it is a non-empty string.\<close>

definition truthy :: "string option \<Rightarrow> bool" where
  "truthy c = (case c of None \<Rightarrow> False | Some s \<Rightarrow> s \<noteq> [])"

definition content_required :: thrown where
  "content_required = ErrorObject PlainError ''Content is required for writing file''"

text \<open>The number of separators a string ends with.\<close>

definition trailing_slashes :: "string \<Rightarrow> nat" where
  "trailing_slashes x = length (takeWhile (\<lambda>c. c = CHR ''/'') (rev x))"

definition ends_with_slash :: "string \<Rightarrow> bool" where
  "ends_with_slash x = (x \<noteq> [] \<and> last x = CHR ''/'')"

subsection \<open>What the operations rely on in the host\<close>

text \<open>
  \<open>Deno.remove\<close> rejects with \<open>NotFound\<close>, and changes nothing, when nothing exists at
  the path (with and without \<open>recursive\<close>); \<open>exists\<close> says which paths exist in a world.
\<close>

definition remove_reports_missing :: "('w, 'm) host \<Rightarrow> (string \<Rightarrow> 'w \<Rightarrow> bool) \<Rightarrow> bool" where
  "remove_reports_missing h exists =
     (\<forall>p r w. \<not> exists p w \<longrightarrow>
        (\<exists>m. Deno_remove h p r w = (Inl (ErrorObject NotFound m), w)))"

text \<open>A text file that was written reads back as the string written.\<close>

definition read_after_write :: "('w, 'm) host \<Rightarrow> bool" where
  "read_after_write h =
     (\<forall>p s w w1. Deno_writeTextFile h p s w = (Inr (), w1) \<longrightarrow>
        (\<exists>w2. Deno_readTextFile h p w1 = (Inr s, w2)))"


section \<open>Two hosts to run the operations on\<close>

subsection \<open>A host on which every call fails\<close>

definition failing :: "thrown \<Rightarrow> ('w, 'm) host" where
  "failing e =
     \<lparr> Deno_readDir = (\<lambda>p w. (([], Some e), w)),
       std_ensureDir = (\<lambda>p. throw_io e),
       Deno_remove = (\<lambda>p r. throw_io e),
       std_copy = (\<lambda>s t. throw_io e),
       std_resolve = (\<lambda>d f. throw_io e),
       Deno_Command_output = (\<lambda>c args cwd. throw_io e),
       TextDecoder_decode = (\<lambda>b. []),
       console_log = (\<lambda>s. throw_io e),
       Deno_readFile = (\<lambda>p. throw_io e),
       dynamic_import = (\<lambda>p. throw_io e),
       Deno_writeTextFile = (\<lambda>p c. throw_io e),
       Deno_copyFile = (\<lambda>s t. throw_io e),
       Deno_readTextFile = (\<lambda>p. throw_io e) \<rparr>"

text \<open>A failure that is not \<open>NotFound\<close>.\<close>

definition denied :: thrown where
  "denied = ErrorObject (OtherClass ''PermissionDenied'') ''Permission denied''"

subsection \<open>A file system in memory\<close>

text \<open>
  A world is a list of nodes by path and the lines printed on the console. Paths are compared
  as strings. The \<open>zip\<close> command writes an archive when its working directory exists and
  reports an error on its standard error otherwise.
\<close>

datatype node = FileNode string | DirNode

record memfs =
  nodes :: "(string \<times> node) list"
  console :: "string list"

definition mem_lookup :: "memfs \<Rightarrow> string \<Rightarrow> node option" where
  "mem_lookup w p = map_of (nodes w) p"

definition mem_exists :: "string \<Rightarrow> memfs \<Rightarrow> bool" where
  "mem_exists p w = (mem_lookup w p \<noteq> None)"

definition not_found :: "string \<Rightarrow> thrown" where
  "not_found p = ErrorObject NotFound (''No such file or directory: '' @ p)"

definition under :: "string \<Rightarrow> string \<Rightarrow> bool" where
  "under p k = (take (length p + 1) k = p @ ''/'')"

definition child_entries :: "memfs \<Rightarrow> string \<Rightarrow> DirEntry list" where
  "child_entries w p =
     map (\<lambda>(k, n). \<lparr> name = drop (length p + 1) k, isFile = (n \<noteq> DirNode),
                     isDirectory = (n = DirNode), isSymlink = False \<rparr>)
       (filter (\<lambda>(k, n). under p k \<and> CHR ''/'' \<notin> set (drop (length p + 1) k)) (nodes w))"

definition put_node :: "string \<Rightarrow> node \<Rightarrow> memfs \<Rightarrow> memfs" where
  "put_node p n w = w\<lparr> nodes := (p, n) # filter (\<lambda>(k, _). k \<noteq> p) (nodes w) \<rparr>"

definition mem_readDir :: "string \<Rightarrow> memfs \<Rightarrow> (DirEntry list \<times> thrown option) \<times> memfs" where
  "mem_readDir p w =
     (case mem_lookup w p of
        None \<Rightarrow> (([], Some (not_found p)), w)
      | Some (FileNode c) \<Rightarrow> (([], Some (ErrorObject (OtherClass ''NotADirectory'') p)), w)
      | Some DirNode \<Rightarrow> ((child_entries w p, None), w))"

definition mem_ensureDir :: "string \<Rightarrow> (memfs, unit) io" where
  "mem_ensureDir p w =
     (case mem_lookup w p of
        None \<Rightarrow> (Inr (), put_node p DirNode w)
      | Some (FileNode c) \<Rightarrow> (Inl (ErrorObject PlainError (''Not a directory: '' @ p)), w)
      | Some DirNode \<Rightarrow> (Inr (), w))"

definition mem_remove :: "string \<Rightarrow> bool \<Rightarrow> (memfs, unit) io" where
  "mem_remove p recursive w =
     (case mem_lookup w p of
        None \<Rightarrow> (Inl (not_found p), w)
      | Some n \<Rightarrow>
          if \<not> recursive \<and> (\<exists>(k, _) \<in> set (nodes w). under p k)
          then (Inl (ErrorObject PlainError (''Directory not empty: '' @ p)), w)
          else (Inr (), w\<lparr> nodes := filter (\<lambda>(k, _). k \<noteq> p \<and> \<not> under p k) (nodes w) \<rparr>))"

definition mem_copy :: "string \<Rightarrow> string \<Rightarrow> (memfs, unit) io" where
  "mem_copy s t w =
     (case mem_lookup w s of
        None \<Rightarrow> (Inl (not_found s), w)
      | Some n \<Rightarrow>
          (Inr (), w\<lparr> nodes :=
             map (\<lambda>(k, n). (t @ drop (length s) k, n))
               (filter (\<lambda>(k, _). k = s \<or> under s k) (nodes w)) @ nodes w \<rparr>))"

definition mem_resolve :: "string \<Rightarrow> string \<Rightarrow> (memfs, string) io" where
  "mem_resolve d f w = (Inr (d @ (if ends_with_slash d then [] else ''/'') @ f), w)"

definition mem_writeTextFile :: "string \<Rightarrow> string \<Rightarrow> (memfs, unit) io" where
  "mem_writeTextFile p c w =
     (case mem_lookup w p of
        Some DirNode \<Rightarrow> (Inl (ErrorObject PlainError (''Is a directory: '' @ p)), w)
      | _ \<Rightarrow> (Inr (), put_node p (FileNode c) w))"

definition mem_readTextFile :: "string \<Rightarrow> (memfs, string) io" where
  "mem_readTextFile p w =
     (case mem_lookup w p of
        None \<Rightarrow> (Inl (not_found p), w)
      | Some DirNode \<Rightarrow> (Inl (ErrorObject PlainError (''Is a directory: '' @ p)), w)
      | Some (FileNode c) \<Rightarrow> (Inr c, w))"

definition encode :: "string \<Rightarrow> bytes" where
  "encode s = map (\<lambda>c. of_nat (of_char c)) s"

definition decode :: "bytes \<Rightarrow> string" where
  "decode b = map (\<lambda>x. char_of (unat x)) b"

definition mem_readFile :: "string \<Rightarrow> (memfs, bytes) io" where
  "mem_readFile p w =
     (case mem_readTextFile p w of (Inl e, w') \<Rightarrow> (Inl e, w') | (Inr c, w') \<Rightarrow> (Inr (encode c), w'))"

definition mem_copyFile :: "string \<Rightarrow> string \<Rightarrow> (memfs, unit) io" where
  "mem_copyFile s t w =
     (case mem_readTextFile s w of (Inl e, w') \<Rightarrow> (Inl e, w') | (Inr c, w') \<Rightarrow> mem_writeTextFile t c w')"

definition mem_import :: "string \<Rightarrow> (memfs, (string \<times> string) list) io" where
  "mem_import p w =
     (case mem_readTextFile p w of (Inl e, w') \<Rightarrow> (Inl e, w') | (Inr c, w') \<Rightarrow> (Inr [(''default'', c)], w'))"

definition mem_command :: "string \<Rightarrow> string list \<Rightarrow> string \<Rightarrow> (memfs, CommandOutput) io" where
  "mem_command c args cwd w =
     (if c \<noteq> ''zip'' then (Inl (ErrorObject NotFound (''Failed to spawn: '' @ c)), w)
      else case args of
             [flag, archive, tree] \<Rightarrow>
               if mem_lookup w cwd = Some DirNode
               then (Inr \<lparr> success = True, stdout = encode ''adding: ./'', stderr = [] \<rparr>,
                     put_node archive (FileNode ''PK'') w)
               else (Inr \<lparr> success = False, stdout = [], stderr = encode ''zip error'' \<rparr>, w)
           | _ \<Rightarrow> (Inr \<lparr> success = False, stdout = [], stderr = encode ''zip error'' \<rparr>, w))"

definition mem_log :: "string \<Rightarrow> (memfs, unit) io" where
  "mem_log s w = (Inr (), w\<lparr> console := console w @ [s] \<rparr>)"

definition mem_host :: "(memfs, (string \<times> string) list) host" where
  "mem_host =
     \<lparr> Deno_readDir = mem_readDir,
       std_ensureDir = mem_ensureDir,
       Deno_remove = mem_remove,
       std_copy = mem_copy,
       std_resolve = mem_resolve,
       Deno_Command_output = mem_command,
       TextDecoder_decode = decode,
       console_log = mem_log,
       Deno_readFile = mem_readFile,
       dynamic_import = mem_import,
       Deno_writeTextFile = mem_writeTextFile,
       Deno_copyFile = mem_copyFile,
       Deno_readTextFile = mem_readTextFile \<rparr>"

text \<open>A project with two directories and one file, as in the library's tests.\<close>

definition project :: memfs where
  "project =
     \<lparr> nodes = [(''/home/app'', DirNode), (''/home/app/dir1'', DirNode),
                (''/home/app/file1.txt'', FileNode ''test''), (''/home/app/dir2'', DirNode),
                (''/home/app/dir2/inner'', DirNode)],
       console = [] \<rparr>"

section \<open>Properties\<close>

subsection \<open>Auxiliary facts\<close>

lemma of_char_lt_256: "of_char c < (256::nat)"
  by (cases c) (simp add: of_char_def horner_sum_eq_sum)

lemma decode_encode: "decode (encode s) = s"
  unfolding decode_def encode_def
  by (induction s) (simp_all add: unat_of_nat of_char_lt_256 take_bit_eq_mod)

lemma char_at_last:
  "char_at x (int (length x) - 1) = (if x = [] then None else Some (last x))"
  by (cases x rule: rev_cases) (simp_all add: char_at_def nth_append)

lemma formatWithTrailingSlash_cases:
  "formatWithTrailingSlash x = (if ends_with_slash x then x else x @ ''/'')"
  by (simp add: formatWithTrailingSlash_def char_at_last ends_with_slash_def)

lemma ends_with_slash_format: "ends_with_slash (formatWithTrailingSlash x)"
  by (simp add: formatWithTrailingSlash_cases ends_with_slash_def)

lemma trailing_slashes_format:
  "trailing_slashes (formatWithTrailingSlash x) = max 1 (trailing_slashes x)"
proof (cases x rule: rev_cases)
  case Nil
  then show ?thesis
    by (simp add: formatWithTrailingSlash_cases ends_with_slash_def trailing_slashes_def)
next
  case (snoc ys y)
  then show ?thesis
    by (simp add: formatWithTrailingSlash_cases ends_with_slash_def trailing_slashes_def)
qed

lemma push_directories_acc:
  "push_directories entries acc = acc @ map DirEntry.name (filter isDirectory entries)"
  by (induction entries arbitrary: acc) simp_all

lemma logged_apply: "logged c m (w, l) = (fst (m w), (snd (m w), l @ [c]))"
  by (simp add: logged_def split: prod.splits)

lemma calls_of_logged: "calls_of (logged c m) w = [c]"
  by (simp add: calls_of_def logged_apply)


lemma zipFolder_target_normalised:
  "zipFolder h (input\<lparr>target := formatWithTrailingSlash (target input)\<rparr>) = zipFolder h input"
  by (simp add: zipFolder_def formatWithTrailingSlash_cases ends_with_slash_def)

text \<open>
  Claim C9, as stated, fails: a target that already ends in two separators is left as it
  is, so the result does not end in exactly one separator.
\<close>
theorem formatWithTrailingSlash_exactly_one_counterexample:
  "formatWithTrailingSlash ''out//'' = ''out//'' \<and>
   trailing_slashes (formatWithTrailingSlash ''out//'') \<noteq> 1"
  by (simp add: formatWithTrailingSlash_def char_at_def trailing_slashes_def)

text \<open>
  Claim C9, amended. \<open>formatWithTrailingSlash\<close> appends one separator to a string that
  does not end in one and returns a string that ends in one unchanged. The result always
  ends in a separator, in as many as the argument does and at least one; in exactly one when
  the argument ends in at most one. \<open>zipFolder\<close> applies it to its target before
  anything else is done with the target, so normalising the target beforehand changes nothing.
\<close>
theorem formatWithTrailingSlash_ensures_slash:
  "formatWithTrailingSlash x = (if ends_with_slash x then x else x @ ''/'') \<and>
   ends_with_slash (formatWithTrailingSlash x) \<and>
   trailing_slashes (formatWithTrailingSlash x) = max 1 (trailing_slashes x) \<and>
   (trailing_slashes x \<le> 1 \<longrightarrow> trailing_slashes (formatWithTrailingSlash x) = 1) \<and>
   zipFolder h (input\<lparr>target := formatWithTrailingSlash (target input)\<rparr>) = zipFolder h input"
  by (simp add: formatWithTrailingSlash_cases [symmetric] ends_with_slash_format
      trailing_slashes_format zipFolder_target_normalised)

theorem formatWithTrailingSlash_ensures_slash_witness:
  "trailing_slashes ''/zips'' \<le> 1 \<and> formatWithTrailingSlash ''/zips'' = ''/zips/'' \<and>
   trailing_slashes (formatWithTrailingSlash ''/zips'') = 1 \<and>
   trailing_slashes ''/zips/'' \<le> 1 \<and> formatWithTrailingSlash ''/zips/'' = ''/zips/''"
  using formatWithTrailingSlash_ensures_slash
      [where x = "''/zips''" and h = mem_host
         and input = "\<lparr>CopyInput.projectRoot = ''/home'', source = ''/app'', target = ''/zips'', ZipInput.name = ''a''\<rparr>"]
    formatWithTrailingSlash_ensures_slash
      [where x = "''/zips/''" and h = mem_host
         and input = "\<lparr>CopyInput.projectRoot = ''/home'', source = ''/app'', target = ''/zips'', ZipInput.name = ''a''\<rparr>"]
  by (simp add: trailing_slashes_def ends_with_slash_def)

text \<open>
  Claim C10. \<open>formatWithTrailingSlash\<close> is idempotent and maps the empty string to
  \<open>/\<close>. Consequently \<open>zipFolder\<close> behaves on a target without a trailing
  separator as on that target followed by one separator: same outcome on every host, and the
  same calls with the same arguments, the archive path among them.
\<close>
theorem formatWithTrailingSlash_idempotent:
  "formatWithTrailingSlash (formatWithTrailingSlash x) = formatWithTrailingSlash x \<and>
   formatWithTrailingSlash [] = ''/'' \<and>
   (\<not> ends_with_slash (target input) \<longrightarrow>
      zipFolder h (input\<lparr>target := target input @ ''/''\<rparr>) = zipFolder h input \<and>
      calls_of (zipFolder (recording h) (input\<lparr>target := target input @ ''/''\<rparr>)) w =
      calls_of (zipFolder (recording h) input) w)"
proof (intro conjI impI)
  show "formatWithTrailingSlash (formatWithTrailingSlash x) = formatWithTrailingSlash x"
    using ends_with_slash_format [of x] by (simp add: formatWithTrailingSlash_cases [of "formatWithTrailingSlash x"])
  show "formatWithTrailingSlash [] = ''/''"
    by (simp add: formatWithTrailingSlash_cases ends_with_slash_def)
next
  assume no: "\<not> ends_with_slash (target input)"
  then have eq: "target input @ ''/'' = formatWithTrailingSlash (target input)"
    by (simp add: formatWithTrailingSlash_cases)
  show "zipFolder h (input\<lparr>target := target input @ ''/''\<rparr>) = zipFolder h input"
    unfolding eq by (rule zipFolder_target_normalised)
  show "calls_of (zipFolder (recording h) (input\<lparr>target := target input @ ''/''\<rparr>)) w =
      calls_of (zipFolder (recording h) input) w"
    unfolding eq by (simp add: zipFolder_target_normalised)
qed

theorem formatWithTrailingSlash_idempotent_witness:
  "\<not> ends_with_slash ''/zips'' \<and>
   zipFolder mem_host \<lparr>CopyInput.projectRoot = ''/home'', source = ''/app'', target = ''/zips/'', ZipInput.name = ''a''\<rparr> =
   zipFolder mem_host \<lparr>CopyInput.projectRoot = ''/home'', source = ''/app'', target = ''/zips'', ZipInput.name = ''a''\<rparr>"
  using formatWithTrailingSlash_idempotent [of _ "\<lparr>CopyInput.projectRoot = ''/home'', source = ''/app'', target = ''/zips'', ZipInput.name = ''a''\<rparr>" mem_host]
  by (simp add: ends_with_slash_def)

text \<open>
  Claim C7. When the directory stream of \<open>projectRoot + path\<close> yields its entries and
  ends normally, \<open>getDirectories\<close> returns the names of the entries whose type is
  directory, in the order of the stream; files and entries of other types are left out. When
  the stream throws, so does \<open>getDirectories\<close>. The directory is read once, at the
  concatenated path.
\<close>
theorem getDirectories_filters_directories:
  "(\<forall>entries w'. Deno_readDir h (DirectoryInput.projectRoot input @ path input) w = ((entries, None), w') \<longrightarrow>
      getDirectories h input w = (Inr (map DirEntry.name (filter isDirectory entries)), w')) \<and>
   (\<forall>entries e w'. Deno_readDir h (DirectoryInput.projectRoot input @ path input) w = ((entries, Some e), w') \<longrightarrow>
      getDirectories h input w = (Inl e, w')) \<and>
   calls_of (getDirectories (recording h) input) w = [ReadDir (DirectoryInput.projectRoot input @ path input)]"
  by (simp add: getDirectories_def push_directories_acc recording_def logged_apply calls_of_def
      split: prod.splits option.splits)


theorem getDirectories_filters_directories_witness:
  "Deno_readDir mem_host (''/home'' @ ''/app'') project =
     (([\<lparr>DirEntry.name = ''dir1'', isFile = False, isDirectory = True, isSymlink = False\<rparr>,
        \<lparr>DirEntry.name = ''file1.txt'', isFile = True, isDirectory = False, isSymlink = False\<rparr>,
        \<lparr>DirEntry.name = ''dir2'', isFile = False, isDirectory = True, isSymlink = False\<rparr>], None), project) \<and>
   getDirectories mem_host \<lparr>DirectoryInput.projectRoot = ''/home'', path = ''/app''\<rparr> project =
     (Inr [''dir1'', ''dir2''], project) \<and>
   Deno_readDir mem_host (''/home'' @ ''/gone'') project = (([], Some (not_found ''/home/gone'')), project) \<and>
   getDirectories mem_host \<lparr>DirectoryInput.projectRoot = ''/home'', path = ''/gone''\<rparr> project =
     (Inl (not_found ''/home/gone''), project)"
proof -
  have listing: "Deno_readDir mem_host (''/home'' @ ''/app'') project =
     (([\<lparr>DirEntry.name = ''dir1'', isFile = False, isDirectory = True, isSymlink = False\<rparr>,
        \<lparr>DirEntry.name = ''file1.txt'', isFile = True, isDirectory = False, isSymlink = False\<rparr>,
        \<lparr>DirEntry.name = ''dir2'', isFile = False, isDirectory = True, isSymlink = False\<rparr>], None), project)"
    by (simp add: mem_host_def mem_readDir_def mem_lookup_def project_def child_entries_def under_def)
  have missing: "Deno_readDir mem_host (''/home'' @ ''/gone'') project =
      (([], Some (not_found ''/home/gone'')), project)"
    by (simp add: mem_host_def mem_readDir_def mem_lookup_def project_def)
  show ?thesis
    using listing missing
      getDirectories_filters_directories
        [of mem_host "\<lparr>DirectoryInput.projectRoot = ''/home'', path = ''/app''\<rparr>" project]
      getDirectories_filters_directories
        [of mem_host "\<lparr>DirectoryInput.projectRoot = ''/home'', path = ''/gone''\<rparr>" project]
    by simp
qed

subsection \<open>Outcomes of the operations in terms of the host's\<close>

lemma try_catch_apply:
  "try_catch m handler w =
     (case m w of (Inl e, w') \<Rightarrow> handler e w' | (Inr x, w') \<Rightarrow> (Inr x, w'))"
  by (simp add: try_catch_def)

lemma bind_io_apply:
  "bind_io m f w = (case m w of (Inl e, w') \<Rightarrow> (Inl e, w') | (Inr x, w') \<Rightarrow> f x w')"
  by (simp add: bind_io_def)

lemma removeDir_outcome:
  "removeDir h input w =
     (case Deno_remove h (DirectoryInput.projectRoot input @ path input) True w of
        (Inl e, w') \<Rightarrow> if instanceof_NotFound e then (Inr (), w') else (Inl e, w')
      | (Inr u, w') \<Rightarrow> (Inr (), w'))"
  by (simp add: removeDir_def try_catch_apply throw_io_def return_io_def
      split: prod.splits sum.splits)

lemma mem_remove_reports_missing: "remove_reports_missing mem_host mem_exists"
  by (simp add: remove_reports_missing_def mem_host_def mem_remove_def mem_exists_def not_found_def)

text \<open>
  Claim C1. On a host whose \<open>remove\<close> reports a missing path as \<open>NotFound\<close>,
  \<open>removeDir\<close> on a path that does not exist completes without error and leaves the
  world as it was. In general, a \<open>NotFound\<close> thrown by the recursive
  \<open>Deno.remove\<close> of \<open>projectRoot + path\<close> is turned into success, every
  other thrown value reaches the caller as it is, and success stays success.
\<close>

theorem removeDir_suppresses_NotFound:
  "(remove_reports_missing h exists \<and> \<not> exists (DirectoryInput.projectRoot input @ path input) w \<longrightarrow>
      removeDir h input w = (Inr (), w)) \<and>
   (\<forall>e w'. Deno_remove h (DirectoryInput.projectRoot input @ path input) True w = (Inl e, w') \<longrightarrow>
      removeDir h input w = (if instanceof_NotFound e then (Inr (), w') else (Inl e, w'))) \<and>
   (\<forall>w'. Deno_remove h (DirectoryInput.projectRoot input @ path input) True w = (Inr (), w') \<longrightarrow>
      removeDir h input w = (Inr (), w'))"
proof (intro conjI allI impI)
  assume a: "remove_reports_missing h exists \<and> \<not> exists (DirectoryInput.projectRoot input @ path input) w"
  then obtain m where
    "Deno_remove h (DirectoryInput.projectRoot input @ path input) True w = (Inl (ErrorObject NotFound m), w)"
    unfolding remove_reports_missing_def by blast
  then show "removeDir h input w = (Inr (), w)"
    by (simp add: removeDir_outcome)
next
  fix e w'
  assume "Deno_remove h (DirectoryInput.projectRoot input @ path input) True w = (Inl e, w')"
  then show "removeDir h input w = (if instanceof_NotFound e then (Inr (), w') else (Inl e, w'))"
    by (simp add: removeDir_outcome)
next
  fix w'
  assume "Deno_remove h (DirectoryInput.projectRoot input @ path input) True w = (Inr (), w')"
  then show "removeDir h input w = (Inr (), w')"
    by (simp add: removeDir_outcome)
qed

theorem removeDir_suppresses_NotFound_witness:
  "remove_reports_missing mem_host mem_exists \<and>
   \<not> mem_exists (''/home/app'' @ ''/gone'') project \<and>
   removeDir mem_host \<lparr>DirectoryInput.projectRoot = ''/home/app'', path = ''/gone''\<rparr> project =
     (Inr (), project) \<and>
   Deno_remove (failing denied) (''/home/app'' @ ''/dir1'') True () = (Inl denied, ()) \<and>
   \<not> instanceof_NotFound denied \<and>
   removeDir (failing denied) \<lparr>DirectoryInput.projectRoot = ''/home/app'', path = ''/dir1''\<rparr> () =
     (Inl denied, ()) \<and>
   Deno_remove mem_host (''/home/app'' @ ''/dir2'') True project =
     (Inr (), project\<lparr>nodes := take 3 (nodes project)\<rparr>) \<and>
   removeDir mem_host \<lparr>DirectoryInput.projectRoot = ''/home/app'', path = ''/dir2''\<rparr> project =
     (Inr (), project\<lparr>nodes := take 3 (nodes project)\<rparr>)"
proof -
  have missing: "\<not> mem_exists (''/home/app'' @ ''/gone'') project"
    by (simp add: mem_exists_def mem_lookup_def project_def)
  have refused: "Deno_remove (failing denied) (''/home/app'' @ ''/dir1'') True () = (Inl denied, ())"
    by (simp add: failing_def throw_io_def)
  have other: "\<not> instanceof_NotFound denied"
    by (simp add: denied_def)
  have removed: "Deno_remove mem_host (''/home/app'' @ ''/dir2'') True project =
      (Inr (), project\<lparr>nodes := take 3 (nodes project)\<rparr>)"
    by (simp add: mem_host_def mem_remove_def mem_lookup_def project_def under_def)
  have suppressed:
    "removeDir mem_host \<lparr>DirectoryInput.projectRoot = ''/home/app'', path = ''/gone''\<rparr> project =
       (Inr (), project)"
    using mem_remove_reports_missing missing
      removeDir_suppresses_NotFound
        [of mem_host mem_exists "\<lparr>DirectoryInput.projectRoot = ''/home/app'', path = ''/gone''\<rparr>" project]
    by simp
  have propagated:
    "removeDir (failing denied) \<lparr>DirectoryInput.projectRoot = ''/home/app'', path = ''/dir1''\<rparr> () =
       (Inl denied, ())"
    using refused other
      removeDir_suppresses_NotFound
        [of "failing denied" "\<lambda>p w. True" "\<lparr>DirectoryInput.projectRoot = ''/home/app'', path = ''/dir1''\<rparr>" "()"]
    by auto
  have completed:
    "removeDir mem_host \<lparr>DirectoryInput.projectRoot = ''/home/app'', path = ''/dir2''\<rparr> project =
       (Inr (), project\<lparr>nodes := take 3 (nodes project)\<rparr>)"
    using removed
      removeDir_suppresses_NotFound
        [of mem_host mem_exists "\<lparr>DirectoryInput.projectRoot = ''/home/app'', path = ''/dir2''\<rparr>" project]
    by auto
  show ?thesis
    using mem_remove_reports_missing missing refused other removed suppressed propagated completed
    by simp
qed

text \<open>
  Claim C2. On a host whose \<open>remove\<close> reports a missing path as \<open>NotFound\<close>,
  \<open>removeFile\<close> on a path that does not exist fails with \<open>NotFound\<close>, where
  \<open>removeDir\<close> on the same path succeeds. \<open>removeFile\<close> is the
  non-recursive \<open>Deno.remove\<close> of \<open>projectRoot + path\<close> and hands every
  outcome of it to the caller.
\<close>

theorem removeFile_reports_NotFound:
  "(remove_reports_missing h exists \<and> \<not> exists (DirectoryInput.projectRoot input @ path input) w \<longrightarrow>
      (\<exists>m. removeFile h input w = (Inl (ErrorObject NotFound m), w)) \<and>
      removeDir h input w = (Inr (), w)) \<and>
   removeFile h input w = Deno_remove h (DirectoryInput.projectRoot input @ path input) False w"
proof (intro conjI impI)
  assume a: "remove_reports_missing h exists \<and> \<not> exists (DirectoryInput.projectRoot input @ path input) w"
  then show "\<exists>m. removeFile h input w = (Inl (ErrorObject NotFound m), w)"
    unfolding remove_reports_missing_def removeFile_def by simp
  from a obtain m where
    "Deno_remove h (DirectoryInput.projectRoot input @ path input) True w = (Inl (ErrorObject NotFound m), w)"
    unfolding remove_reports_missing_def by blast
  then show "removeDir h input w = (Inr (), w)"
    by (simp add: removeDir_outcome)
next
  show "removeFile h input w = Deno_remove h (DirectoryInput.projectRoot input @ path input) False w"
    by (simp add: removeFile_def)
qed

theorem removeFile_reports_NotFound_witness:
  "remove_reports_missing mem_host mem_exists \<and>
   \<not> mem_exists (''/home/app'' @ ''/gone.txt'') project \<and>
   removeFile mem_host \<lparr>DirectoryInput.projectRoot = ''/home/app'', path = ''/gone.txt''\<rparr> project =
     (Inl (not_found ''/home/app/gone.txt''), project) \<and>
   removeDir mem_host \<lparr>DirectoryInput.projectRoot = ''/home/app'', path = ''/gone.txt''\<rparr> project =
     (Inr (), project)"
proof -
  have missing: "\<not> mem_exists (''/home/app'' @ ''/gone.txt'') project"
    by (simp add: mem_exists_def mem_lookup_def project_def)
  have call: "Deno_remove mem_host (''/home/app'' @ ''/gone.txt'') False project =
      (Inl (not_found ''/home/app/gone.txt''), project)"
    by (simp add: mem_host_def mem_remove_def mem_lookup_def project_def)
  show ?thesis
    using mem_remove_reports_missing missing call
      removeFile_reports_NotFound
        [of mem_host mem_exists "\<lparr>DirectoryInput.projectRoot = ''/home/app'', path = ''/gone.txt''\<rparr>" project]
    by simp
qed


lemma writeFile_falsy:
  "\<not> truthy (content input) \<Longrightarrow> writeFile h input w = (Inl content_required, w)"
  by (simp add: writeFile_def truthy_def content_required_def throw_io_def split: option.splits)

lemma writeFile_truthy:
  "content input = Some c \<Longrightarrow> c \<noteq> [] \<Longrightarrow>
   writeFile h input = Deno_writeTextFile h (DirectoryInput.projectRoot input @ path input) c"
  by (simp add: writeFile_def)

lemma failing_writeFile:
  "truthy (content input) \<Longrightarrow> writeFile (failing e) input w = (Inl e, w)"
  by (simp add: writeFile_def truthy_def failing_def throw_io_def split: option.splits)

text \<open>
  Claim C3. When \<open>content\<close> is \<open>undefined\<close> or the empty string,
  \<open>writeFile\<close> fails with the error \<open>Content is required for writing file\<close>,
  whatever the host, without a single call to it and with the world unchanged. When
  \<open>content\<close> is a non-empty string, \<open>writeFile\<close> is one call of
  \<open>Deno.writeTextFile\<close> with \<open>projectRoot + path\<close> and that string. The
  failure that is the same on every host and in every world happens exactly when the
  content is falsy.
\<close>

theorem writeFile_requires_content:
  fixes h :: "('w, 'm) host"
  shows
  "(\<not> truthy (content input) \<longrightarrow>
      writeFile h input w = (Inl content_required, w) \<and>
      calls_of (writeFile (recording h) input) w = []) \<and>
   (\<forall>c. content input = Some c \<and> c \<noteq> [] \<longrightarrow>
      writeFile h input w = Deno_writeTextFile h (DirectoryInput.projectRoot input @ path input) c w \<and>
      calls_of (writeFile (recording h) input) w =
        [WriteTextFile (DirectoryInput.projectRoot input @ path input) c]) \<and>
   ((\<forall>(g :: ('w, 'm) host) v. writeFile g input v = (Inl content_required, v)) \<longleftrightarrow>
      \<not> truthy (content input))"
proof (intro conjI allI impI)
  assume "\<not> truthy (content input)"
  then show "writeFile h input w = (Inl content_required, w)"
    by (rule writeFile_falsy)
next
  assume "\<not> truthy (content input)"
  then show "calls_of (writeFile (recording h) input) w = []"
    by (simp add: calls_of_def writeFile_falsy)
next
  fix c
  assume c: "content input = Some c \<and> c \<noteq> []"
  then show "writeFile h input w =
      Deno_writeTextFile h (DirectoryInput.projectRoot input @ path input) c w"
    by (simp add: writeFile_truthy)
  from c show "calls_of (writeFile (recording h) input) w =
      [WriteTextFile (DirectoryInput.projectRoot input @ path input) c]"
    by (simp add: writeFile_truthy recording_def calls_of_logged)
next
  show "(\<forall>(g :: ('w, 'm) host) v. writeFile g input v = (Inl content_required, v)) \<longleftrightarrow>
      \<not> truthy (content input)"
  proof
    assume always: "\<forall>(g :: ('w, 'm) host) v. writeFile g input v = (Inl content_required, v)"
    show "\<not> truthy (content input)"
    proof
      assume "truthy (content input)"
      then have "writeFile (failing (NonErrorValue []) :: ('w, 'm) host) input w =
          (Inl (NonErrorValue []), w)"
        by (rule failing_writeFile)
      with always show False
        by (simp add: content_required_def)
    qed
  next
    assume "\<not> truthy (content input)"
    then show "\<forall>(g :: ('w, 'm) host) v. writeFile g input v = (Inl content_required, v)"
      by (simp add: writeFile_falsy)
  qed
qed

theorem writeFile_requires_content_witness:
  "\<not> truthy None \<and>
   writeFile mem_host \<lparr>DirectoryInput.projectRoot = ''/home/app'', path = ''/test.txt'', content = None\<rparr> project =
     (Inl content_required, project) \<and>
   \<not> truthy (Some []) \<and>
   writeFile mem_host \<lparr>DirectoryInput.projectRoot = ''/home/app'', path = ''/test.txt'', content = Some []\<rparr> project =
     (Inl content_required, project) \<and>
   calls_of (writeFile (recording mem_host)
     \<lparr>DirectoryInput.projectRoot = ''/home/app'', path = ''/test.txt'', content = Some []\<rparr>) project = [] \<and>
   ''hi'' \<noteq> [] \<and>
   writeFile mem_host \<lparr>DirectoryInput.projectRoot = ''/home/app'', path = ''/test.txt'', content = Some ''hi''\<rparr> project =
     (Inr (), put_node ''/home/app/test.txt'' (FileNode ''hi'') project) \<and>
   calls_of (writeFile (recording mem_host)
     \<lparr>DirectoryInput.projectRoot = ''/home/app'', path = ''/test.txt'', content = Some ''hi''\<rparr>) project =
     [WriteTextFile ''/home/app/test.txt'' ''hi'']"
proof -
  have written: "Deno_writeTextFile mem_host (''/home/app'' @ ''/test.txt'') ''hi'' project =
      (Inr (), put_node ''/home/app/test.txt'' (FileNode ''hi'') project)"
    by (simp add: mem_host_def mem_writeTextFile_def mem_lookup_def project_def)
  note undefined_content = writeFile_requires_content
      [of "\<lparr>DirectoryInput.projectRoot = ''/home/app'', path = ''/test.txt'', content = None\<rparr>"
        mem_host project]
  note empty_content = writeFile_requires_content
      [of "\<lparr>DirectoryInput.projectRoot = ''/home/app'', path = ''/test.txt'', content = Some []\<rparr>"
        mem_host project]
  note some_content = writeFile_requires_content
      [of "\<lparr>DirectoryInput.projectRoot = ''/home/app'', path = ''/test.txt'', content = Some ''hi''\<rparr>"
        mem_host project]
  have a: "writeFile mem_host \<lparr>DirectoryInput.projectRoot = ''/home/app'', path = ''/test.txt'', content = None\<rparr> project =
     (Inl content_required, project)"
    using undefined_content by (simp add: truthy_def)
  have b: "writeFile mem_host \<lparr>DirectoryInput.projectRoot = ''/home/app'', path = ''/test.txt'', content = Some []\<rparr> project =
     (Inl content_required, project) \<and>
     calls_of (writeFile (recording mem_host)
     \<lparr>DirectoryInput.projectRoot = ''/home/app'', path = ''/test.txt'', content = Some []\<rparr>) project = []"
    using empty_content by (simp add: truthy_def)
  have c: "writeFile mem_host \<lparr>DirectoryInput.projectRoot = ''/home/app'', path = ''/test.txt'', content = Some ''hi''\<rparr> project =
     (Inr (), put_node ''/home/app/test.txt'' (FileNode ''hi'') project) \<and>
   calls_of (writeFile (recording mem_host)
     \<lparr>DirectoryInput.projectRoot = ''/home/app'', path = ''/test.txt'', content = Some ''hi''\<rparr>) project =
     [WriteTextFile ''/home/app/test.txt'' ''hi'']"
    using some_content written by simp
  show ?thesis
    using a b c by (simp add: truthy_def)
qed

lemma mem_read_after_write: "read_after_write mem_host"
  by (auto simp add: read_after_write_def mem_host_def mem_writeTextFile_def mem_readTextFile_def
      mem_lookup_def put_node_def split: option.splits node.splits)

text \<open>
  Claim C4. On a host on which a text file that was written reads back as written, a
  \<open>writeFile\<close> of a non-empty string \<open>s\<close> that succeeds, followed by
  \<open>getTextContent\<close> with the same \<open>projectRoot\<close> and \<open>path\<close>,
  returns exactly \<open>s\<close>.
\<close>

theorem writeFile_getTextContent_round_trip:
  assumes "read_after_write h"
    and "s \<noteq> []"
    and "writeFile h \<lparr>DirectoryInput.projectRoot = root, path = p, content = Some s\<rparr> w = (Inr (), w1)"
  shows "\<exists>w2. getTextContent h \<lparr>DirectoryInput.projectRoot = root, path = p\<rparr> w1 = (Inr s, w2)"
proof -
  from assms(2,3) have "Deno_writeTextFile h (root @ p) s w = (Inr (), w1)"
    by (simp add: writeFile_def)
  with assms(1) obtain w2 where "Deno_readTextFile h (root @ p) w1 = (Inr s, w2)"
    unfolding read_after_write_def by blast
  then show ?thesis
    by (simp add: getTextContent_def)
qed

theorem writeFile_getTextContent_round_trip_witness:
  "read_after_write mem_host \<and> ''Hello, World!'' \<noteq> [] \<and>
   writeFile mem_host
     \<lparr>DirectoryInput.projectRoot = ''/home/app'', path = ''/test.txt'', content = Some ''Hello, World!''\<rparr>
     project = (Inr (), put_node ''/home/app/test.txt'' (FileNode ''Hello, World!'') project) \<and>
   getTextContent mem_host \<lparr>DirectoryInput.projectRoot = ''/home/app'', path = ''/test.txt''\<rparr>
     (put_node ''/home/app/test.txt'' (FileNode ''Hello, World!'') project) =
     (Inr ''Hello, World!'', put_node ''/home/app/test.txt'' (FileNode ''Hello, World!'') project)"
proof -
  have written: "writeFile mem_host
     \<lparr>DirectoryInput.projectRoot = ''/home/app'', path = ''/test.txt'', content = Some ''Hello, World!''\<rparr>
     project = (Inr (), put_node ''/home/app/test.txt'' (FileNode ''Hello, World!'') project)"
    by (simp add: writeFile_def mem_host_def mem_writeTextFile_def mem_lookup_def project_def)
  have unchanged: "snd (getTextContent mem_host \<lparr>DirectoryInput.projectRoot = ''/home/app'', path = ''/test.txt''\<rparr> v) = v" for v
    by (simp add: getTextContent_def mem_host_def mem_readTextFile_def split: option.splits node.splits)
  from writeFile_getTextContent_round_trip [OF mem_read_after_write _ written]
  obtain w2 where "getTextContent mem_host \<lparr>DirectoryInput.projectRoot = ''/home/app'', path = ''/test.txt''\<rparr>
     (put_node ''/home/app/test.txt'' (FileNode ''Hello, World!'') project) = (Inr ''Hello, World!'', w2)"
    by auto
  with unchanged [of "put_node ''/home/app/test.txt'' (FileNode ''Hello, World!'') project"]
  have "getTextContent mem_host \<lparr>DirectoryInput.projectRoot = ''/home/app'', path = ''/test.txt''\<rparr>
     (put_node ''/home/app/test.txt'' (FileNode ''Hello, World!'') project) =
     (Inr ''Hello, World!'', put_node ''/home/app/test.txt'' (FileNode ''Hello, World!'') project)"
    by simp
  with mem_read_after_write written show ?thesis
    by simp
qed







lemma recording_fields:
  "Deno_readDir (recording h) p = logged (ReadDir p) (Deno_readDir h p)"
  "std_ensureDir (recording h) p = logged (EnsureDir p) (std_ensureDir h p)"
  "Deno_remove (recording h) p r = logged (Remove p r) (Deno_remove h p r)"
  "std_copy (recording h) s t = logged (Copy s t) (std_copy h s t)"
  "std_resolve (recording h) d f = logged (Resolve d f) (std_resolve h d f)"
  "Deno_Command_output (recording h) c args cwd =
     logged (RunCommand c args cwd) (Deno_Command_output h c args cwd)"
  "TextDecoder_decode (recording h) = TextDecoder_decode h"
  "console_log (recording h) l = logged (ConsoleLog l) (console_log h l)"
  "Deno_readFile (recording h) p = logged (ReadFile p) (Deno_readFile h p)"
  "dynamic_import (recording h) p = logged (Import p) (dynamic_import h p)"
  "Deno_writeTextFile (recording h) p x = logged (WriteTextFile p x) (Deno_writeTextFile h p x)"
  "Deno_copyFile (recording h) s t = logged (CopyFile s t) (Deno_copyFile h s t)"
  "Deno_readTextFile (recording h) p = logged (ReadTextFile p) (Deno_readTextFile h p)"
  by (simp_all add: recording_def)

lemma zipFolder_outcome:
  "zipFolder h input w =
     (case std_ensureDir h (CopyInput.projectRoot input @ formatWithTrailingSlash (target input)) w of
        (Inl e, w1) \<Rightarrow> (Inl e, w1)
      | (Inr u, w1) \<Rightarrow>
          (case std_resolve h (CopyInput.projectRoot input @ formatWithTrailingSlash (target input))
                  (ZipInput.name input @ ''.zip'') w1 of
             (Inl e, w2) \<Rightarrow> (Inl e, w2)
           | (Inr zp, w2) \<Rightarrow>
               (case Deno_Command_output h ''zip'' [''-r'', zp, ''.'']
                       (CopyInput.projectRoot input @ source input) w2 of
                  (Inl e, w3) \<Rightarrow> (Inl e, w3)
                | (Inr out, w3) \<Rightarrow>
                    if success out then console_log h (TextDecoder_decode h (stdout out)) w3
                    else (Inl (ErrorObject PlainError
                            (''Failed to create zip: '' @ TextDecoder_decode h (stderr out))), w3))))"
  by (simp add: zipFolder_def bind_io_apply throw_io_def Let_def split: prod.splits sum.splits)

lemma zipFolder_calls:
  "calls_of (zipFolder (recording h) input) w =
     (case std_ensureDir h (CopyInput.projectRoot input @ formatWithTrailingSlash (target input)) w of
        (Inl e, w1) \<Rightarrow>
          [EnsureDir (CopyInput.projectRoot input @ formatWithTrailingSlash (target input))]
      | (Inr u, w1) \<Rightarrow>
          [EnsureDir (CopyInput.projectRoot input @ formatWithTrailingSlash (target input)),
           Resolve (CopyInput.projectRoot input @ formatWithTrailingSlash (target input))
             (ZipInput.name input @ ''.zip'')] @
          (case std_resolve h (CopyInput.projectRoot input @ formatWithTrailingSlash (target input))
                  (ZipInput.name input @ ''.zip'') w1 of
             (Inl e, w2) \<Rightarrow> []
           | (Inr zp, w2) \<Rightarrow>
               RunCommand ''zip'' [''-r'', zp, ''.''] (CopyInput.projectRoot input @ source input) #
               (case Deno_Command_output h ''zip'' [''-r'', zp, ''.'']
                       (CopyInput.projectRoot input @ source input) w2 of
                  (Inl e, w3) \<Rightarrow> []
                | (Inr out, w3) \<Rightarrow>
                    if success out then [ConsoleLog (TextDecoder_decode h (stdout out))] else [])))"
proof -
  obtain r1 w1 where e1:
    "std_ensureDir h (CopyInput.projectRoot input @ formatWithTrailingSlash (target input)) w = (r1, w1)"
    by (cases "std_ensureDir h (CopyInput.projectRoot input @ formatWithTrailingSlash (target input)) w")
  obtain r2 w2 where e2:
    "std_resolve h (CopyInput.projectRoot input @ formatWithTrailingSlash (target input))
       (ZipInput.name input @ ''.zip'') w1 = (r2, w2)"
    by (cases "std_resolve h (CopyInput.projectRoot input @ formatWithTrailingSlash (target input))
       (ZipInput.name input @ ''.zip'') w1")
  show ?thesis
  proof (cases r1)
    case (Inl e)
    with e1 show ?thesis
      by (simp add: calls_of_def zipFolder_outcome recording_fields logged_apply)
  next
    case ensured: (Inr u)
    show ?thesis
    proof (cases r2)
      case (Inl e)
      with e1 e2 ensured show ?thesis
        by (simp add: calls_of_def zipFolder_outcome recording_fields logged_apply)
    next
      case resolved: (Inr zp)
      obtain r3 w3 where e3:
        "Deno_Command_output h ''zip'' [''-r'', zp, ''.''] (CopyInput.projectRoot input @ source input) w2 =
           (r3, w3)"
        by (cases "Deno_Command_output h ''zip'' [''-r'', zp, ''.'']
            (CopyInput.projectRoot input @ source input) w2")
      show ?thesis
      proof (cases r3)
        case (Inl e)
        with e1 e2 e3 ensured resolved show ?thesis
          by (simp add: calls_of_def zipFolder_outcome recording_fields logged_apply)
      next
        case (Inr out)
        with e1 e2 e3 ensured resolved show ?thesis
          by (simp add: calls_of_def zipFolder_outcome recording_fields logged_apply)
      qed
    qed
  qed
qed

text \<open>
  Claim C5. \<open>zipFolder\<close> first calls \<open>ensureDir\<close> on the target
  directory, \<open>projectRoot\<close> followed by the target with its trailing separator; when
  that fails, nothing else is called and the failure reaches the caller. Otherwise the
  archive path is resolved from the target directory and \<open>name + .zip\<close>, and
  \<open>zip -r archive .\<close> is run with \<open>projectRoot + source\<close> as its working
  directory. When the process reports no success, \<open>zipFolder\<close> fails with an error
  whose message is \<open>Failed to create zip: \<close> followed by the decoded standard error.
  On success the decoded standard output is logged and nothing but the unit value is
  returned.
\<close>

theorem zipFolder_runs_zip:
  "(\<forall>e w1.
      std_ensureDir h (CopyInput.projectRoot input @ formatWithTrailingSlash (target input)) w = (Inl e, w1) \<longrightarrow>
      zipFolder h input w = (Inl e, w1) \<and>
      calls_of (zipFolder (recording h) input) w =
        [EnsureDir (CopyInput.projectRoot input @ formatWithTrailingSlash (target input))]) \<and>
   (\<forall>w1 zp w2 out w3.
      std_ensureDir h (CopyInput.projectRoot input @ formatWithTrailingSlash (target input)) w = (Inr (), w1) \<and>
      std_resolve h (CopyInput.projectRoot input @ formatWithTrailingSlash (target input))
        (ZipInput.name input @ ''.zip'') w1 = (Inr zp, w2) \<and>
      Deno_Command_output h ''zip'' [''-r'', zp, ''.''] (CopyInput.projectRoot input @ source input) w2 =
        (Inr out, w3) \<longrightarrow>
      zipFolder h input w =
        (if success out then console_log h (TextDecoder_decode h (stdout out)) w3
         else (Inl (ErrorObject PlainError
                 (''Failed to create zip: '' @ TextDecoder_decode h (stderr out))), w3)) \<and>
      calls_of (zipFolder (recording h) input) w =
        [EnsureDir (CopyInput.projectRoot input @ formatWithTrailingSlash (target input)),
         Resolve (CopyInput.projectRoot input @ formatWithTrailingSlash (target input))
           (ZipInput.name input @ ''.zip''),
         RunCommand ''zip'' [''-r'', zp, ''.''] (CopyInput.projectRoot input @ source input)] @
        (if success out then [ConsoleLog (TextDecoder_decode h (stdout out))] else []))"
proof (intro conjI allI impI)
  fix e w1
  assume "std_ensureDir h (CopyInput.projectRoot input @ formatWithTrailingSlash (target input)) w = (Inl e, w1)"
  then show "zipFolder h input w = (Inl e, w1)"
    and "calls_of (zipFolder (recording h) input) w =
        [EnsureDir (CopyInput.projectRoot input @ formatWithTrailingSlash (target input))]"
    by (simp_all add: zipFolder_outcome zipFolder_calls)
next
  fix w1 zp w2 out w3
  assume run:
    "std_ensureDir h (CopyInput.projectRoot input @ formatWithTrailingSlash (target input)) w = (Inr (), w1) \<and>
     std_resolve h (CopyInput.projectRoot input @ formatWithTrailingSlash (target input))
       (ZipInput.name input @ ''.zip'') w1 = (Inr zp, w2) \<and>
     Deno_Command_output h ''zip'' [''-r'', zp, ''.''] (CopyInput.projectRoot input @ source input) w2 =
       (Inr out, w3)"
  then show "zipFolder h input w =
        (if success out then console_log h (TextDecoder_decode h (stdout out)) w3
         else (Inl (ErrorObject PlainError
                 (''Failed to create zip: '' @ TextDecoder_decode h (stderr out))), w3))"
    by (simp add: zipFolder_outcome)
  from run show "calls_of (zipFolder (recording h) input) w =
        [EnsureDir (CopyInput.projectRoot input @ formatWithTrailingSlash (target input)),
         Resolve (CopyInput.projectRoot input @ formatWithTrailingSlash (target input))
           (ZipInput.name input @ ''.zip''),
         RunCommand ''zip'' [''-r'', zp, ''.''] (CopyInput.projectRoot input @ source input)] @
        (if success out then [ConsoleLog (TextDecoder_decode h (stdout out))] else [])"
    by (simp add: zipFolder_calls)
qed


theorem zipFolder_runs_zip_witness:
  "std_ensureDir mem_host (''/home'' @ formatWithTrailingSlash ''/zips'') project =
     (Inr (), put_node ''/home/zips/'' DirNode project) \<and>
   std_resolve mem_host (''/home'' @ formatWithTrailingSlash ''/zips'') (''test_archive'' @ ''.zip'')
     (put_node ''/home/zips/'' DirNode project) =
     (Inr ''/home/zips/test_archive.zip'', put_node ''/home/zips/'' DirNode project) \<and>
   Deno_Command_output mem_host ''zip'' [''-r'', ''/home/zips/test_archive.zip'', ''.''] (''/home'' @ ''/app'')
     (put_node ''/home/zips/'' DirNode project) =
     (Inr \<lparr>success = True, stdout = encode ''adding: ./'', stderr = []\<rparr>,
      put_node ''/home/zips/test_archive.zip'' (FileNode ''PK'') (put_node ''/home/zips/'' DirNode project)) \<and>
   zipFolder mem_host
     \<lparr>CopyInput.projectRoot = ''/home'', source = ''/app'', target = ''/zips'', ZipInput.name = ''test_archive''\<rparr>
     project =
     (Inr (), put_node ''/home/zips/test_archive.zip'' (FileNode ''PK'')
        (put_node ''/home/zips/'' DirNode project) \<lparr>console := [''adding: ./'']\<rparr>) \<and>
   calls_of (zipFolder (recording mem_host)
     \<lparr>CopyInput.projectRoot = ''/home'', source = ''/app'', target = ''/zips'', ZipInput.name = ''test_archive''\<rparr>)
     project =
     [EnsureDir ''/home/zips/'', Resolve ''/home/zips/'' ''test_archive.zip'',
      RunCommand ''zip'' [''-r'', ''/home/zips/test_archive.zip'', ''.''] ''/home/app'',
      ConsoleLog ''adding: ./''] \<and>
   Deno_Command_output mem_host ''zip'' [''-r'', ''/home/zips/test_archive.zip'', ''.''] (''/home'' @ ''/nowhere'')
     (put_node ''/home/zips/'' DirNode project) =
     (Inr \<lparr>success = False, stdout = [], stderr = encode ''zip error''\<rparr>,
      put_node ''/home/zips/'' DirNode project) \<and>
   zipFolder mem_host
     \<lparr>CopyInput.projectRoot = ''/home'', source = ''/nowhere'', target = ''/zips'', ZipInput.name = ''test_archive''\<rparr>
     project =
     (Inl (ErrorObject PlainError ''Failed to create zip: zip error''),
      put_node ''/home/zips/'' DirNode project) \<and>
   std_ensureDir (failing denied) (''/home'' @ formatWithTrailingSlash ''/zips'') () = (Inl denied, ()) \<and>
   zipFolder (failing denied)
     \<lparr>CopyInput.projectRoot = ''/home'', source = ''/app'', target = ''/zips'', ZipInput.name = ''test_archive''\<rparr>
     () = (Inl denied, ())"
proof -
  have fmt: "formatWithTrailingSlash ''/zips'' = ''/zips/''"
    by (simp add: formatWithTrailingSlash_cases ends_with_slash_def)
  have ensured: "std_ensureDir mem_host (''/home'' @ formatWithTrailingSlash ''/zips'') project =
      (Inr (), put_node ''/home/zips/'' DirNode project)"
    by (simp add: fmt mem_host_def mem_ensureDir_def mem_lookup_def project_def)
  have resolved: "std_resolve mem_host (''/home'' @ formatWithTrailingSlash ''/zips'') (''test_archive'' @ ''.zip'')
      (put_node ''/home/zips/'' DirNode project) =
      (Inr ''/home/zips/test_archive.zip'', put_node ''/home/zips/'' DirNode project)"
    by (simp add: fmt mem_host_def mem_resolve_def ends_with_slash_def)
  have zipped: "Deno_Command_output mem_host ''zip'' [''-r'', ''/home/zips/test_archive.zip'', ''.'']
      (''/home'' @ ''/app'') (put_node ''/home/zips/'' DirNode project) =
      (Inr \<lparr>success = True, stdout = encode ''adding: ./'', stderr = []\<rparr>,
       put_node ''/home/zips/test_archive.zip'' (FileNode ''PK'') (put_node ''/home/zips/'' DirNode project))"
    by (simp add: mem_host_def mem_command_def mem_lookup_def put_node_def project_def)
  have failed: "Deno_Command_output mem_host ''zip'' [''-r'', ''/home/zips/test_archive.zip'', ''.'']
      (''/home'' @ ''/nowhere'') (put_node ''/home/zips/'' DirNode project) =
      (Inr \<lparr>success = False, stdout = [], stderr = encode ''zip error''\<rparr>,
       put_node ''/home/zips/'' DirNode project)"
    by (simp add: mem_host_def mem_command_def mem_lookup_def put_node_def project_def)
  have refused: "std_ensureDir (failing denied) (''/home'' @ formatWithTrailingSlash ''/zips'') () =
      (Inl denied, ())"
    by (simp add: failing_def throw_io_def)
  have decoder: "TextDecoder_decode mem_host = decode"
    by (simp add: mem_host_def)
  have printed: "console_log mem_host l v = (Inr (), v\<lparr>console := console v @ [l]\<rparr>)" for l v
    by (simp add: mem_host_def mem_log_def)
  have quiet: "console (put_node p n v) = console v" for p n v
    by (simp add: put_node_def)
  have success_case:
    "zipFolder mem_host
       \<lparr>CopyInput.projectRoot = ''/home'', source = ''/app'', target = ''/zips'', ZipInput.name = ''test_archive''\<rparr>
       project =
       (Inr (), put_node ''/home/zips/test_archive.zip'' (FileNode ''PK'')
          (put_node ''/home/zips/'' DirNode project) \<lparr>console := [''adding: ./'']\<rparr>) \<and>
     calls_of (zipFolder (recording mem_host)
       \<lparr>CopyInput.projectRoot = ''/home'', source = ''/app'', target = ''/zips'', ZipInput.name = ''test_archive''\<rparr>)
       project =
       [EnsureDir ''/home/zips/'', Resolve ''/home/zips/'' ''test_archive.zip'',
        RunCommand ''zip'' [''-r'', ''/home/zips/test_archive.zip'', ''.''] ''/home/app'',
        ConsoleLog ''adding: ./'']"
    using ensured resolved zipped
      zipFolder_runs_zip
        [of mem_host "\<lparr>CopyInput.projectRoot = ''/home'', source = ''/app'', target = ''/zips'', ZipInput.name = ''test_archive''\<rparr>" project]
    by (auto simp add: fmt decoder decode_encode printed quiet project_def)
  have failure_case:
    "zipFolder mem_host
       \<lparr>CopyInput.projectRoot = ''/home'', source = ''/nowhere'', target = ''/zips'', ZipInput.name = ''test_archive''\<rparr>
       project =
       (Inl (ErrorObject PlainError ''Failed to create zip: zip error''),
        put_node ''/home/zips/'' DirNode project)"
    using ensured resolved failed
      zipFolder_runs_zip
        [of mem_host "\<lparr>CopyInput.projectRoot = ''/home'', source = ''/nowhere'', target = ''/zips'', ZipInput.name = ''test_archive''\<rparr>" project]
    by (auto simp add: fmt decoder decode_encode)
  have refused_case:
    "zipFolder (failing denied)
       \<lparr>CopyInput.projectRoot = ''/home'', source = ''/app'', target = ''/zips'', ZipInput.name = ''test_archive''\<rparr>
       () = (Inl denied, ())"
    using refused
      zipFolder_runs_zip
        [of "failing denied" "\<lparr>CopyInput.projectRoot = ''/home'', source = ''/app'', target = ''/zips'', ZipInput.name = ''test_archive''\<rparr>" "()"]
    by auto
  show ?thesis
    using ensured resolved zipped failed refused success_case failure_case refused_case
    by simp
qed



end
